theory Spec2Isabelle
  imports Complex_Main "HOL-Library.AList"
begin

section \<open>The paper-trading execution simulator\<close>

text \<open>
  A shallow embedding of \<^verbatim>\<open>src/execution/paper_wallet.py\<close> and
  \<^verbatim>\<open>src/execution/order_executor.py\<close>.

  Conventions of the embedding:
  \<^item> a Python \<^verbatim>\<open>float\<close> is a \<^typ>\<open>real\<close>: the arithmetic is exact, the rounding of
    IEEE doubles is not modelled;
  \<^item> the wallet's \<^verbatim>\<open>balances\<close> dict is an association list in insertion order, read
    with \<^const>\<open>map_of\<close> and written with \<^const>\<open>AList.update\<close> (which replaces the value of
    a present key in place and appends an absent one, as a dict assignment does);
  \<^item> mutation of the wallet and of the executor is explicit state passing;
  \<^item> an exception that leaves a method is a value \<open>Inl e\<close> of the outcome;
  \<^item> logging, the write of the wallet to its JSON file (\<^verbatim>\<open>save\<close>, whose failures are
    caught and logged) and the simulated latency have no effect on a result or on a
    balance and are left out.
\<close>

subsection \<open>PaperWallet\<close>

type_synonym balances = "(string \<times> real) list"

definition get_balance :: "balances \<Rightarrow> string \<Rightarrow> real" where
  "get_balance bal currency = (case map_of bal currency of None \<Rightarrow> 0 | Some v \<Rightarrow> v)"

definition deposit :: "balances \<Rightarrow> string \<Rightarrow> real \<Rightarrow> balances" where
  "deposit bal currency amount =
     (if amount < 0 then bal
      else (let current = get_balance bal currency
            in AList.update currency (current + amount) bal))"

definition withdraw :: "balances \<Rightarrow> string \<Rightarrow> real \<Rightarrow> bool \<times> balances" where
  "withdraw bal currency amount =
     (if amount < 0 then (False, bal)
      else (let current = get_balance bal currency
            in if current \<ge> amount
               then (True, AList.update currency (current - amount) bal)
               else (False, bal)))"





subsection \<open>PaperWallet as an object in a store\<close>

text \<open>
  \<^verbatim>\<open>get_all_balances\<close> returns \<^verbatim>\<open>self.balances\<close>, a reference to the dict object the
  wallet holds. What a caller can do with it depends on the sharing, so here the dict
  objects live in a store at addresses, the wallet object holds the address of its
  dict, and \<^verbatim>\<open>deposit\<close> and \<^verbatim>\<open>withdraw\<close>, which assign to an entry of that dict, update the
  object at that address in place.
\<close>

type_synonym ref = nat

type_synonym store = "ref \<Rightarrow> balances"

record wallet_object =
  balances_ref :: ref

definition obj_get_balance :: "store \<Rightarrow> wallet_object \<Rightarrow> string \<Rightarrow> real" where
  "obj_get_balance st self currency = get_balance (st (balances_ref self)) currency"

definition obj_deposit :: "store \<Rightarrow> wallet_object \<Rightarrow> string \<Rightarrow> real \<Rightarrow> store" where
  "obj_deposit st self currency amount =
     st(balances_ref self := deposit (st (balances_ref self)) currency amount)"

definition obj_withdraw :: "store \<Rightarrow> wallet_object \<Rightarrow> string \<Rightarrow> real \<Rightarrow> bool \<times> store" where
  "obj_withdraw st self currency amount =
     (case withdraw (st (balances_ref self)) currency amount of
        (ok, bal') \<Rightarrow> (ok, st(balances_ref self := bal')))"

definition get_all_balances :: "wallet_object \<Rightarrow> ref" where
  "get_all_balances self = balances_ref self"

text \<open>What a caller does with a dict it holds: \<^verbatim>\<open>d[key] = value\<close> and \<^verbatim>\<open>d.get(key)\<close>.\<close>

definition dict_setitem :: "store \<Rightarrow> ref \<Rightarrow> string \<Rightarrow> real \<Rightarrow> store" where
  "dict_setitem st d key v = st(d := AList.update key v (st d))"

definition dict_get :: "store \<Rightarrow> ref \<Rightarrow> string \<Rightarrow> real option" where
  "dict_get st d key = map_of (st d) key"

subsection \<open>OrderExecutor: data\<close>

text \<open>
  The exceptions that can leave the executor: \<^verbatim>\<open>ValueError\<close> from unpacking the split
  symbol, \<^verbatim>\<open>TypeError\<close> from arithmetic or comparison on a missing (\<^verbatim>\<open>None\<close>) price,
  \<^verbatim>\<open>ZeroDivisionError\<close> from the division by the amount, \<^verbatim>\<open>AttributeError\<close> from
  \<^verbatim>\<open>withdraw\<close> called on a missing (\<^verbatim>\<open>None\<close>) wallet.
\<close>

datatype py_error = ValueError | TypeError | ZeroDivisionError | AttributeError

text \<open>
  An order book is the dict with the keys \<^verbatim>\<open>'asks'\<close> and \<^verbatim>\<open>'bids'\<close>, each a list of
  \<^verbatim>\<open>[price, volume]\<close> levels; such a dict is truthy. \<open>None\<close> stands for the missing book
  (\<^verbatim>\<open>None\<close>, or the empty dict, which the code treats alike).
\<close>

type_synonym level = "real \<times> real"

record order_book =
  asks :: "level list"
  bids :: "level list"

text \<open>
  A signal is a dict of which the code reads the keys \<^verbatim>\<open>'side'\<close> and \<^verbatim>\<open>'price'\<close>
  with \<^verbatim>\<open>get\<close>: \<open>None\<close> is the absent key.
\<close>

record signal =
  sig_side :: "string option"
  sig_price :: "real option"

text \<open>\<^verbatim>\<open>not signal\<close>: the dict is empty (a dict holding other keys only has no side and
  no price, and both methods answer it as they answer the empty one).\<close>

definition signal_falsy :: "signal \<Rightarrow> bool" where
  "signal_falsy sg = (sig_side sg = None \<and> sig_price sg = None)"

text \<open>Truthiness of an optional number: \<^verbatim>\<open>None\<close> and zero are falsy.\<close>

definition price_truthy :: "real option \<Rightarrow> bool" where
  "price_truthy price = (case price of None \<Rightarrow> False | Some p \<Rightarrow> p \<noteq> 0)"

text \<open>
  The result dicts. The identifier of a paper fill is \<^verbatim>\<open>paper_\<close> followed by the clock's
  integer seconds, which is not modelled; the live placeholders have no cost, and the
  single-order one no price.
\<close>

datatype trade_id = PaperId | LiveMock | LadderMock nat

record fill =
  fill_id :: trade_id
  fill_status :: string
  fill_side :: string
  fill_amount :: real
  fill_price :: "real option"
  fill_cost :: "real option"

text \<open>
  The executor object. \<^verbatim>\<open>MIN_TRADE_INTERVAL\<close> comes from a configuration module and is a
  parameter of the constructor here; the exchange client is never used by the code under
  study and is left out.
\<close>

record order_executor =
  paper_wallet :: "balances option"
  slippage_pct :: real
  fee_pct :: real
  last_trade_time :: real
  min_trade_interval :: real

definition init_executor :: "balances option \<Rightarrow> real \<Rightarrow> real \<Rightarrow> real \<Rightarrow> order_executor" where
  "init_executor wallet slippage fee interval =
     \<lparr>paper_wallet = wallet, slippage_pct = slippage, fee_pct = fee,
      last_trade_time = 0, min_trade_interval = interval\<rparr>"

type_synonym 'a outcome = "(py_error + 'a) \<times> order_executor"

subsection \<open>OrderExecutor: the paper trade\<close>

text \<open>\<^verbatim>\<open>symbol.split('/')\<close>, and the unpacking of its result into two names.\<close>

fun str_split :: "char \<Rightarrow> string \<Rightarrow> string list" where
  "str_split sep [] = [[]]"
| "str_split sep (c # cs) =
     (if c = sep then [] # str_split sep cs
      else (case str_split sep cs of
              [] \<Rightarrow> [[c]]
            | part # parts \<Rightarrow> (c # part) # parts))"

definition split_symbol :: "string \<Rightarrow> py_error + string \<times> string" where
  "split_symbol symbol =
     (case str_split CHR ''/'' symbol of
        [base, quote] \<Rightarrow> Inr (base, quote)
      | _ \<Rightarrow> Inl ValueError)"

text \<open>
  The loop over the levels (lines 128 to 133): it returns the accumulated cost and
  the remaining amount, and leaves at the first level after which nothing remains.
\<close>

fun walk_levels :: "level list \<Rightarrow> real \<Rightarrow> real \<Rightarrow> real \<times> real" where
  "walk_levels [] total_cost remaining_amount = (total_cost, remaining_amount)"
| "walk_levels ((p, v) # levels) total_cost remaining_amount =
     (let fill = min remaining_amount v;
          total_cost = total_cost + fill * p;
          remaining_amount = remaining_amount - fill
      in if remaining_amount \<le> 0 then (total_cost, remaining_amount)
         else walk_levels levels total_cost remaining_amount)"

text \<open>
  Lines 124 to 142, for a non-empty list of levels: the walk, the penalty for the
  amount beyond the book's depth, and the average price.
\<close>

definition book_exec_price :: "string \<Rightarrow> level list \<Rightarrow> real \<Rightarrow> py_error + real" where
  "book_exec_price side levels amount =
     (let (total_cost, remaining_amount) = walk_levels levels 0 amount;
          total_cost =
            (if remaining_amount > 0
             then (let last_p = fst (last levels);
                       penalty_price = (if side = ''buy'' then last_p * 1.05 else last_p * 0.95)
                   in total_cost + remaining_amount * penalty_price)
             else total_cost)
      in if amount = 0 then Inl ZeroDivisionError else Inr (total_cost / amount))"

text \<open>Lines 149 to 152: the flat slippage, applied to a positive price only.\<close>

definition flat_slippage :: "real \<Rightarrow> string \<Rightarrow> real \<Rightarrow> real" where
  "flat_slippage slippage side price =
     (if price > 0
      then (let slip_mult = (if side = ''buy'' then 1 + slippage / 100.0
                             else 1 - slippage / 100.0)
            in price * slip_mult)
      else price)"

text \<open>
  Lines 116 to 152: the execution price. With a book whose side has levels, the price
  of the walk (the comparison \<^verbatim>\<open>price > 0\<close> that follows it, for the log, raises on a
  missing price); with a book whose side is empty, the price as given (the product
  \<^verbatim>\<open>amount * exec_price\<close> of line 155 raises on a missing one); without a book, the
  price with the flat slippage when it is positive.
\<close>

definition discover_price ::
  "real \<Rightarrow> string \<Rightarrow> real \<Rightarrow> real option \<Rightarrow> order_book option \<Rightarrow> py_error + real" where
  "discover_price slippage side amount price book =
     (case book of
        Some ob \<Rightarrow>
          (let levels = (if side = ''buy'' then asks ob else bids ob)
           in if levels \<noteq> []
              then (case book_exec_price side levels amount of
                      Inl e \<Rightarrow> Inl e
                    | Inr exec_price \<Rightarrow>
                        (case price of None \<Rightarrow> Inl TypeError | Some p \<Rightarrow> Inr exec_price))
              else (case price of None \<Rightarrow> Inl TypeError | Some p \<Rightarrow> Inr p))
      | None \<Rightarrow>
          (case price of
             None \<Rightarrow> Inl TypeError
           | Some p \<Rightarrow> Inr (flat_slippage slippage side p)))"

text \<open>Lines 154 to 184: costs, fee and the settlement on the wallet.\<close>

definition settle ::
  "real \<Rightarrow> string \<Rightarrow> string \<Rightarrow> string \<Rightarrow> real \<Rightarrow> real \<Rightarrow> balances \<Rightarrow> fill option \<times> balances" where
  "settle fee side base quote amount exec_price bal =
     (let raw_cost = amount * exec_price;
          fee_mult = 1 + fee / 100.0;
          total_cost = raw_cost * fee_mult;
          sell_proceeds = raw_cost * (1 - fee / 100.0)
      in if side = ''buy''
         then (case withdraw bal quote total_cost of
                 (True, bal') \<Rightarrow>
                   (Some \<lparr>fill_id = PaperId, fill_status = ''closed'', fill_side = ''buy'',
                          fill_amount = amount, fill_price = Some exec_price,
                          fill_cost = Some total_cost\<rparr>,
                    deposit bal' base amount)
               | (False, bal') \<Rightarrow> (None, bal'))
         else if side = ''sell''
         then (case withdraw bal base amount of
                 (True, bal') \<Rightarrow>
                   (Some \<lparr>fill_id = PaperId, fill_status = ''closed'', fill_side = ''sell'',
                          fill_amount = amount, fill_price = Some exec_price,
                          fill_cost = Some sell_proceeds\<rparr>,
                    deposit bal' quote sell_proceeds)
               | (False, bal') \<Rightarrow> (None, bal'))
         else (None, bal))"

definition execute_paper_trade ::
  "order_executor \<Rightarrow> string \<Rightarrow> string \<Rightarrow> real \<Rightarrow> real option \<Rightarrow> order_book option
     \<Rightarrow> fill option outcome" where
  "execute_paper_trade ex side symbol amount price book =
     (if \<not> price_truthy price \<and> book = None then (Inr None, ex)
      else (case split_symbol symbol of
              Inl e \<Rightarrow> (Inl e, ex)
            | Inr (base, quote) \<Rightarrow>
                (case discover_price (slippage_pct ex) side amount price book of
                   Inl e \<Rightarrow> (Inl e, ex)
                 | Inr exec_price \<Rightarrow>
                     (case paper_wallet ex of
                        None \<Rightarrow>
                          if side = ''buy'' \<or> side = ''sell'' then (Inl AttributeError, ex)
                          else (Inr None, ex)
                      | Some bal \<Rightarrow>
                          (let (res, bal') = settle (fee_pct ex) side base quote amount exec_price bal
                           in (Inr res, ex\<lparr>paper_wallet := Some bal'\<rparr>))))))"

subsection \<open>OrderExecutor: single orders and ladders\<close>

text \<open>\<open>now\<close> is the reading of the clock at line 34.\<close>

definition execute_order ::
  "order_executor \<Rightarrow> real \<Rightarrow> signal \<Rightarrow> string \<Rightarrow> real \<Rightarrow> order_book option
     \<Rightarrow> fill option outcome" where
  "execute_order ex now sg symbol amount book =
     (if signal_falsy sg then (Inr None, ex)
      else (case sig_side sg of
              None \<Rightarrow> (Inr None, ex)
            | Some side \<Rightarrow>
                if side \<notin> set [''buy'', ''sell''] then (Inr None, ex)
                else (let current_time = now
                      in if current_time - last_trade_time ex < min_trade_interval ex
                         then (Inr None, ex)
                         else if paper_wallet ex \<noteq> None
                         then execute_paper_trade ex side symbol amount (sig_price sg) book
                         else (Inr (Some \<lparr>fill_id = LiveMock, fill_status = ''closed'',
                                          fill_side = side, fill_amount = amount,
                                          fill_price = None, fill_cost = None\<rparr>),
                               ex\<lparr>last_trade_time := current_time\<rparr>))))"

definition rungs :: "(real \<times> real) list" where
  "rungs = [(0.2, 0.99), (0.3, 0.98), (0.5, 0.96)]"

text \<open>
  The loop of lines 82 to 96 over the rungs that remain, \<open>i\<close> being the index of the
  first of them and \<open>results\<close> the list built so far.
\<close>

fun ladder_loop ::
  "order_executor \<Rightarrow> string \<Rightarrow> real \<Rightarrow> real \<Rightarrow> nat \<Rightarrow> (real \<times> real) list \<Rightarrow> fill list
     \<Rightarrow> fill list outcome" where
  "ladder_loop ex symbol total_amount current_price i [] results = (Inr results, ex)"
| "ladder_loop ex symbol total_amount current_price i ((size_mult, price_mult) # rest) results =
     (let rung_amount = total_amount * size_mult;
          rung_price = current_price * price_mult
      in if paper_wallet ex \<noteq> None
         then (case execute_paper_trade ex ''buy'' symbol rung_amount (Some rung_price) None of
                 (Inl e, ex') \<Rightarrow> (Inl e, ex')
               | (Inr res, ex') \<Rightarrow>
                   ladder_loop ex' symbol total_amount current_price (Suc i) rest
                     (case res of None \<Rightarrow> results | Some r \<Rightarrow> results @ [r]))
         else ladder_loop ex symbol total_amount current_price (Suc i) rest
                (results @ [\<lparr>fill_id = LadderMock i, fill_status = ''open'',
                              fill_side = ''buy'', fill_amount = rung_amount,
                              fill_price = Some rung_price, fill_cost = None\<rparr>]))"

definition execute_ladder_order ::
  "order_executor \<Rightarrow> signal \<Rightarrow> string \<Rightarrow> real \<Rightarrow> order_book option
     \<Rightarrow> fill list option outcome" where
  "execute_ladder_order ex sg symbol total_amount book =
     (if signal_falsy sg \<or> total_amount = 0 then (Inr None, ex)
      else (case sig_price sg of
              None \<Rightarrow> (Inr None, ex)
            | Some current_price \<Rightarrow>
                if current_price = 0 then (Inr None, ex)
                else (case ladder_loop ex symbol total_amount current_price 0 rungs [] of
                        (Inl e, ex') \<Rightarrow> (Inl e, ex')
                      | (Inr results, ex') \<Rightarrow>
                          (Inr (if results \<noteq> [] then Some results else None), ex'))))"

subsection \<open>The book walk as the specification words it\<close>



subsection \<open>The ladder as the specification words it\<close>

text \<open>
  The per-rung results of a ladder: one entry for each rung of the plan, in the plan's
  order, each rung's own result or \<open>None\<close> where its settlement failed.
\<close>

fun rung_outcomes ::
  "order_executor \<Rightarrow> string \<Rightarrow> real \<Rightarrow> real \<Rightarrow> nat \<Rightarrow> (real \<times> real) list
     \<Rightarrow> fill option list outcome" where
  "rung_outcomes ex symbol total_amount current_price i [] = (Inr [], ex)"
| "rung_outcomes ex symbol total_amount current_price i ((size_mult, price_mult) # rest) =
     (if paper_wallet ex \<noteq> None
      then (case execute_paper_trade ex ''buy'' symbol (total_amount * size_mult)
                   (Some (current_price * price_mult)) None of
              (Inl e, ex') \<Rightarrow> (Inl e, ex')
            | (Inr res, ex') \<Rightarrow>
                (case rung_outcomes ex' symbol total_amount current_price (Suc i) rest of
                   (Inl e, ex'') \<Rightarrow> (Inl e, ex'')
                 | (Inr outs, ex'') \<Rightarrow> (Inr (res # outs), ex'')))
      else (case rung_outcomes ex symbol total_amount current_price (Suc i) rest of
              (Inl e, ex'') \<Rightarrow> (Inl e, ex'')
            | (Inr outs, ex'') \<Rightarrow>
                (Inr (Some \<lparr>fill_id = LadderMock i, fill_status = ''open'',
                              fill_side = ''buy'', fill_amount = total_amount * size_mult,
                              fill_price = Some (current_price * price_mult),
                              fill_cost = None\<rparr> # outs), ex'')))"

subsection \<open>Properties of the wallet\<close>

lemma get_balance_update:
  "get_balance (AList.update k v bal) c = (if c = k then v else get_balance bal c)"
  by (simp add: get_balance_def update_conv')









subsection \<open>Settlement\<close>











subsection \<open>The book walk\<close>


















subsection \<open>Ladders\<close>

lemma execute_paper_trade_wallet:
  "paper_wallet ex \<noteq> None \<Longrightarrow> paper_wallet (snd (execute_paper_trade ex side symbol amount price book)) \<noteq> None"
  by (auto simp: execute_paper_trade_def split: sum.splits prod.splits option.splits)

lemma ladder_loop_outcomes:
  "ladder_loop ex symbol total_amount current_price i rs results =
     (case rung_outcomes ex symbol total_amount current_price i rs of
        (Inl e, ex') \<Rightarrow> (Inl e, ex')
      | (Inr outs, ex') \<Rightarrow> (Inr (results @ List.map_filter id outs), ex'))"
proof (induction rs arbitrary: ex i results)
  case Nil
  then show ?case by (simp add: List.map_filter_simps)
next
  case (Cons r rs)
  obtain size_mult price_mult where r: "r = (size_mult, price_mult)" by (cases r)
  show ?case unfolding r
    by (simp add: Cons.IH Let_def List.map_filter_simps split: prod.splits sum.splits option.splits)
qed

lemma rung_outcomes_length:
  "rung_outcomes ex symbol total_amount current_price i rs = (Inr outs, ex') \<Longrightarrow>
     length outs = length rs"
proof (induction rs arbitrary: ex i outs)
  case Nil
  then show ?case by simp
next
  case (Cons r rs)
  obtain size_mult price_mult where r: "r = (size_mult, price_mult)" by (cases r)
  from Cons.prems show ?case unfolding r
    by (auto simp: Let_def split: prod.splits sum.splits if_splits dest: Cons.IH)
qed



lemma map_filter_id_Some:
  "List.map_filter id outs = map the (filter (\<lambda>out. out \<noteq> None) outs)"
  by (simp add: List.map_filter_def)

lemma rung_trade:
  assumes "paper_wallet ex = Some bal"
    and "split_symbol symbol = Inr (base, quote)"
    and "p \<noteq> 0"
    and "settle (fee_pct ex) ''buy'' base quote a (flat_slippage (slippage_pct ex) ''buy'' p) bal
           = (res, bal')"
  shows "execute_paper_trade ex ''buy'' symbol a (Some p) None
           = (Inr res, ex\<lparr>paper_wallet := Some bal'\<rparr>)"
  using assms by (simp add: execute_paper_trade_def price_truthy_def discover_price_def)

text \<open>
  Claim C5, as amended. For a ladder with a total amount and a reference price that are
  not zero, whose rungs raise no exception: the per-rung results have one entry for
  each rung of the plan, and the call returns, in the plan's order, the results of the
  rungs that settled only. A rung whose settlement failed leaves no entry, so the
  returned list is as long as the number of rungs that settled; when no rung settled
  the call returns \<open>None\<close>.
\<close>

theorem ladder_returns_filled_rungs:
  assumes price: "sig_price sg = Some P" and nonzero: "P \<noteq> 0" and total: "T \<noteq> 0"
    and outs: "rung_outcomes ex symbol T P 0 rungs = (Inr outs, ex')"
  shows "length outs = length rungs
     \<and> execute_ladder_order ex sg symbol T book
         = (Inr (if filter (\<lambda>out. out \<noteq> None) outs = [] then None
                 else Some (map the (filter (\<lambda>out. out \<noteq> None) outs))), ex')"
proof -
  from outs have len: "length outs = length rungs" by (rule rung_outcomes_length)
  from price have sg: "\<not> signal_falsy sg" by (simp add: signal_falsy_def)
  have loop: "ladder_loop ex symbol T P 0 rungs []
      = (Inr (map the (filter (\<lambda>out. out \<noteq> None) outs)), ex')"
    by (simp add: ladder_loop_outcomes outs map_filter_id_Some)
  from sg price nonzero total loop len show ?thesis
    by (simp add: execute_ladder_order_def)
qed

text \<open>
  Claim C6. A ladder with total amount \<open>T\<close> and reference price \<open>P\<close>, both not zero,
  makes exactly three buy rungs, in this order: \<open>0.2 * T\<close> at \<open>0.99 * P\<close>, \<open>0.3 * T\<close> at
  \<open>0.98 * P\<close>, \<open>0.5 * T\<close> at \<open>0.96 * P\<close>. With a paper wallet and a well-formed symbol
  each rung is settled on its own, on the wallet the rung before it left, at its price
  with the flat slippage; the book given to the call plays no part. Without a wallet
  the three placeholder orders carry the same amounts and prices.
\<close>

theorem ladder_three_buy_rungs:
  assumes price: "sig_price sg = Some P" and nonzero: "P \<noteq> 0" and total: "T \<noteq> 0"
  shows "(paper_wallet ex = Some bal \<and> split_symbol symbol = Inr (base, quote)
          \<and> settle (fee_pct ex) ''buy'' base quote (T * 0.2)
                (flat_slippage (slippage_pct ex) ''buy'' (P * 0.99)) bal = (res1, bal1)
          \<and> settle (fee_pct ex) ''buy'' base quote (T * 0.3)
                (flat_slippage (slippage_pct ex) ''buy'' (P * 0.98)) bal1 = (res2, bal2)
          \<and> settle (fee_pct ex) ''buy'' base quote (T * 0.5)
                (flat_slippage (slippage_pct ex) ''buy'' (P * 0.96)) bal2 = (res3, bal3)
          \<longrightarrow> execute_ladder_order ex sg symbol T book
                = (Inr (if filter (\<lambda>out. out \<noteq> None) [res1, res2, res3] = [] then None
                        else Some (map the (filter (\<lambda>out. out \<noteq> None) [res1, res2, res3]))),
                   ex\<lparr>paper_wallet := Some bal3\<rparr>))
     \<and> (paper_wallet ex = None
          \<longrightarrow> execute_ladder_order ex sg symbol T book
                = (Inr (Some
                     [\<lparr>fill_id = LadderMock 0, fill_status = ''open'', fill_side = ''buy'',
                       fill_amount = T * 0.2, fill_price = Some (P * 0.99), fill_cost = None\<rparr>,
                      \<lparr>fill_id = LadderMock 1, fill_status = ''open'', fill_side = ''buy'',
                       fill_amount = T * 0.3, fill_price = Some (P * 0.98), fill_cost = None\<rparr>,
                      \<lparr>fill_id = LadderMock 2, fill_status = ''open'', fill_side = ''buy'',
                       fill_amount = T * 0.5, fill_price = Some (P * 0.96), fill_cost = None\<rparr>]),
                   ex))"
proof (intro conjI impI)
  from price have sg: "\<not> signal_falsy sg" by (simp add: signal_falsy_def)
  {
    assume a: "paper_wallet ex = Some bal \<and> split_symbol symbol = Inr (base, quote)
          \<and> settle (fee_pct ex) ''buy'' base quote (T * 0.2)
                (flat_slippage (slippage_pct ex) ''buy'' (P * 0.99)) bal = (res1, bal1)
          \<and> settle (fee_pct ex) ''buy'' base quote (T * 0.3)
                (flat_slippage (slippage_pct ex) ''buy'' (P * 0.98)) bal1 = (res2, bal2)
          \<and> settle (fee_pct ex) ''buy'' base quote (T * 0.5)
                (flat_slippage (slippage_pct ex) ''buy'' (P * 0.96)) bal2 = (res3, bal3)"
    let ?ex1 = "ex\<lparr>paper_wallet := Some bal1\<rparr>"
    let ?ex2 = "ex\<lparr>paper_wallet := Some bal2\<rparr>"
    let ?ex3 = "ex\<lparr>paper_wallet := Some bal3\<rparr>"
    from a have w: "paper_wallet ex \<noteq> None" "paper_wallet ?ex1 \<noteq> None"
        "paper_wallet ?ex2 \<noteq> None"
      by simp_all
    from a nonzero have t1: "execute_paper_trade ex ''buy'' symbol (T * 0.2) (Some (P * 0.99)) None
        = (Inr res1, ?ex1)"
      by (intro rung_trade [where bal = bal and base = base and quote = quote]) simp_all
    from a nonzero have "execute_paper_trade ?ex1 ''buy'' symbol (T * 0.3) (Some (P * 0.98)) None
        = (Inr res2, ?ex1\<lparr>paper_wallet := Some bal2\<rparr>)"
      by (intro rung_trade [where bal = bal1 and base = base and quote = quote]) simp_all
    then have t2: "execute_paper_trade ?ex1 ''buy'' symbol (T * 0.3) (Some (P * 0.98)) None
        = (Inr res2, ?ex2)"
      by simp
    from a nonzero have "execute_paper_trade ?ex2 ''buy'' symbol (T * 0.5) (Some (P * 0.96)) None
        = (Inr res3, ?ex2\<lparr>paper_wallet := Some bal3\<rparr>)"
      by (intro rung_trade [where bal = bal2 and base = base and quote = quote]) simp_all
    then have t3: "execute_paper_trade ?ex2 ''buy'' symbol (T * 0.5) (Some (P * 0.96)) None
        = (Inr res3, ?ex3)"
      by simp
    have "rung_outcomes ex symbol T P 0 rungs = (Inr [res1, res2, res3], ?ex3)"
      by (simp only: rungs_def rung_outcomes.simps w t1 t2 t3 not_False_eq_True if_True
          prod.case sum.case)
    then have "ladder_loop ex symbol T P 0 rungs []
        = (Inr (map the (filter (\<lambda>out. out \<noteq> None) [res1, res2, res3])), ?ex3)"
      by (simp only: ladder_loop_outcomes map_filter_id_Some prod.case sum.case append_Nil)
    with sg price nonzero total
    show "execute_ladder_order ex sg symbol T book
                = (Inr (if filter (\<lambda>out. out \<noteq> None) [res1, res2, res3] = [] then None
                        else Some (map the (filter (\<lambda>out. out \<noteq> None) [res1, res2, res3]))),
                   ex\<lparr>paper_wallet := Some bal3\<rparr>)"
      by (simp add: execute_ladder_order_def)
  }
  {
    assume "paper_wallet ex = None"
    with sg price nonzero total
    show "execute_ladder_order ex sg symbol T book
                = (Inr (Some
                     [\<lparr>fill_id = LadderMock 0, fill_status = ''open'', fill_side = ''buy'',
                       fill_amount = T * 0.2, fill_price = Some (P * 0.99), fill_cost = None\<rparr>,
                      \<lparr>fill_id = LadderMock 1, fill_status = ''open'', fill_side = ''buy'',
                       fill_amount = T * 0.3, fill_price = Some (P * 0.98), fill_cost = None\<rparr>,
                      \<lparr>fill_id = LadderMock 2, fill_status = ''open'', fill_side = ''buy'',
                       fill_amount = T * 0.5, fill_price = Some (P * 0.96), fill_cost = None\<rparr>]),
                   ex)"
      by (simp add: execute_ladder_order_def rungs_def)
  }
qed

text \<open>
  Claim C5 as stated fails: with 3000 USD, a ladder over 100 units at the reference
  price 100 settles the first rung (cost 1980) and fails the other two (costs 2940 and
  4800), and the call returns a list of one entry, not of three with two gaps.
\<close>

theorem ladder_gaps_counterexample:
  "fst (execute_ladder_order (init_executor (Some [(''USD'', 3000)]) 0 0 60)
          \<lparr>sig_side = Some ''buy'', sig_price = Some 100\<rparr> ''BTC/USD'' 100 None)
     = Inr (Some [\<lparr>fill_id = PaperId, fill_status = ''closed'', fill_side = ''buy'',
                   fill_amount = 20, fill_price = Some 99, fill_cost = Some 1980\<rparr>])
   \<and> length [\<lparr>fill_id = PaperId, fill_status = ''closed'', fill_side = ''buy'',
                fill_amount = 20, fill_price = Some 99, fill_cost = Some 1980\<rparr>] = 1
   \<and> length rungs = 3"
  by (simp add: execute_ladder_order_def signal_falsy_def rungs_def init_executor_def
      execute_paper_trade_def price_truthy_def split_symbol_def discover_price_def
      flat_slippage_def settle_def withdraw_def deposit_def get_balance_def)

theorem ladder_returns_filled_rungs_witness:
  "rung_outcomes (init_executor (Some [(''USD'', 3000)]) 0 0 60) ''BTC/USD'' 100 100 0 rungs
     = (Inr [Some \<lparr>fill_id = PaperId, fill_status = ''closed'', fill_side = ''buy'',
                   fill_amount = 20, fill_price = Some 99, fill_cost = Some 1980\<rparr>,
             None, None],
        (init_executor (Some [(''USD'', 3000)]) 0 0 60)
          \<lparr>paper_wallet := Some [(''USD'', 1020), (''BTC'', 20)]\<rparr>)
   \<and> length [Some \<lparr>fill_id = PaperId, fill_status = ''closed'', fill_side = ''buy'',
                     fill_amount = 20, fill_price = Some 99, fill_cost = Some 1980\<rparr>,
               None, None] = length rungs
   \<and> execute_ladder_order (init_executor (Some [(''USD'', 3000)]) 0 0 60)
          \<lparr>sig_side = Some ''buy'', sig_price = Some 100\<rparr> ''BTC/USD'' 100 None
     = (Inr (Some [\<lparr>fill_id = PaperId, fill_status = ''closed'', fill_side = ''buy'',
                    fill_amount = 20, fill_price = Some 99, fill_cost = Some 1980\<rparr>]),
        (init_executor (Some [(''USD'', 3000)]) 0 0 60)
          \<lparr>paper_wallet := Some [(''USD'', 1020), (''BTC'', 20)]\<rparr>)"
proof -
  let ?ex = "init_executor (Some [(''USD'', 3000)]) 0 0 60"
  let ?sg = "\<lparr>sig_side = Some ''buy'', sig_price = Some 100\<rparr>"
  let ?f = "\<lparr>fill_id = PaperId, fill_status = ''closed'', fill_side = ''buy'',
             fill_amount = 20, fill_price = Some 99, fill_cost = Some 1980\<rparr>"
  have outs: "rung_outcomes ?ex ''BTC/USD'' 100 100 0 rungs
     = (Inr [Some ?f, None, None], ?ex\<lparr>paper_wallet := Some [(''USD'', 1020), (''BTC'', 20)]\<rparr>)"
    by (simp add: rungs_def init_executor_def
      execute_paper_trade_def price_truthy_def split_symbol_def discover_price_def
      flat_slippage_def settle_def withdraw_def deposit_def get_balance_def)
  have price: "sig_price ?sg = Some 100" by simp
  from ladder_returns_filled_rungs [OF price _ _ outs, of None] outs
  show ?thesis by simp
qed

theorem ladder_three_buy_rungs_witness:
  "settle 0 ''buy'' ''BTC'' ''USD'' (100 * 0.2) (flat_slippage 0 ''buy'' (100 * 0.99))
       [(''USD'', 10000)]
     = (Some \<lparr>fill_id = PaperId, fill_status = ''closed'', fill_side = ''buy'',
              fill_amount = 20, fill_price = Some 99, fill_cost = Some 1980\<rparr>,
        [(''USD'', 8020), (''BTC'', 20)])
   \<and> execute_ladder_order (init_executor (Some [(''USD'', 10000)]) 0 0 60)
          \<lparr>sig_side = Some ''buy'', sig_price = Some 100\<rparr> ''BTC/USD'' 100
          (Some \<lparr>asks = [(100, 1)], bids = []\<rparr>)
     = (Inr (Some [\<lparr>fill_id = PaperId, fill_status = ''closed'', fill_side = ''buy'',
                    fill_amount = 20, fill_price = Some 99, fill_cost = Some 1980\<rparr>,
                   \<lparr>fill_id = PaperId, fill_status = ''closed'', fill_side = ''buy'',
                    fill_amount = 30, fill_price = Some 98, fill_cost = Some 2940\<rparr>,
                   \<lparr>fill_id = PaperId, fill_status = ''closed'', fill_side = ''buy'',
                    fill_amount = 50, fill_price = Some 96, fill_cost = Some 4800\<rparr>]),
        (init_executor (Some [(''USD'', 10000)]) 0 0 60)
          \<lparr>paper_wallet := Some [(''USD'', 280), (''BTC'', 100)]\<rparr>)
   \<and> execute_ladder_order (init_executor None 0 0 60)
          \<lparr>sig_side = Some ''buy'', sig_price = Some 100\<rparr> ''BTC/USD'' 100 None
     = (Inr (Some [\<lparr>fill_id = LadderMock 0, fill_status = ''open'', fill_side = ''buy'',
                    fill_amount = 20, fill_price = Some 99, fill_cost = None\<rparr>,
                   \<lparr>fill_id = LadderMock 1, fill_status = ''open'', fill_side = ''buy'',
                    fill_amount = 30, fill_price = Some 98, fill_cost = None\<rparr>,
                   \<lparr>fill_id = LadderMock 2, fill_status = ''open'', fill_side = ''buy'',
                    fill_amount = 50, fill_price = Some 96, fill_cost = None\<rparr>]),
        init_executor None 0 0 60)"
proof -
  let ?ex = "init_executor (Some [(''USD'', 10000)]) 0 0 60"
  let ?live = "init_executor None 0 0 60"
  let ?sg = "\<lparr>sig_side = Some ''buy'', sig_price = Some 100\<rparr>"
  let ?f1 = "\<lparr>fill_id = PaperId, fill_status = ''closed'', fill_side = ''buy'',
              fill_amount = 20, fill_price = Some 99, fill_cost = Some 1980\<rparr>"
  let ?f2 = "\<lparr>fill_id = PaperId, fill_status = ''closed'', fill_side = ''buy'',
              fill_amount = 30, fill_price = Some 98, fill_cost = Some 2940\<rparr>"
  let ?f3 = "\<lparr>fill_id = PaperId, fill_status = ''closed'', fill_side = ''buy'',
              fill_amount = 50, fill_price = Some 96, fill_cost = Some 4800\<rparr>"
  have price: "sig_price ?sg = Some 100" by simp
  have wal: "paper_wallet ?ex = Some [(''USD'', 10000)]" and nowal: "paper_wallet ?live = None"
    and par: "fee_pct ?ex = 0" "slippage_pct ?ex = 0"
    by (simp_all add: init_executor_def)
  have sym: "split_symbol ''BTC/USD'' = Inr (''BTC'', ''USD'')" by (simp add: split_symbol_def)
  have s1: "settle 0 ''buy'' ''BTC'' ''USD'' (100 * 0.2) (flat_slippage 0 ''buy'' (100 * 0.99))
       [(''USD'', 10000)] = (Some ?f1, [(''USD'', 8020), (''BTC'', 20)])"
    by (simp add: flat_slippage_def settle_def withdraw_def deposit_def get_balance_def)
  have s2: "settle 0 ''buy'' ''BTC'' ''USD'' (100 * 0.3) (flat_slippage 0 ''buy'' (100 * 0.98))
       [(''USD'', 8020), (''BTC'', 20)] = (Some ?f2, [(''USD'', 5080), (''BTC'', 50)])"
    by (simp add: flat_slippage_def settle_def withdraw_def deposit_def get_balance_def)
  have s3: "settle 0 ''buy'' ''BTC'' ''USD'' (100 * 0.5) (flat_slippage 0 ''buy'' (100 * 0.96))
       [(''USD'', 5080), (''BTC'', 50)] = (Some ?f3, [(''USD'', 280), (''BTC'', 100)])"
    by (simp add: flat_slippage_def settle_def withdraw_def deposit_def get_balance_def)
  have paper: "execute_ladder_order ?ex ?sg ''BTC/USD'' 100 (Some \<lparr>asks = [(100, 1)], bids = []\<rparr>)
     = (Inr (Some [?f1, ?f2, ?f3]), ?ex\<lparr>paper_wallet := Some [(''USD'', 280), (''BTC'', 100)]\<rparr>)"
    using ladder_three_buy_rungs [OF price, of 100 ?ex "[(''USD'', 10000)]" "''BTC/USD''"
        "''BTC''" "''USD''" "Some ?f1" "[(''USD'', 8020), (''BTC'', 20)]"
        "Some ?f2" "[(''USD'', 5080), (''BTC'', 50)]" "Some ?f3" "[(''USD'', 280), (''BTC'', 100)]"
        "Some \<lparr>asks = [(100, 1)], bids = []\<rparr>"]
      wal sym s1 s2 s3 unfolding par by simp
  have live: "execute_ladder_order ?live ?sg ''BTC/USD'' 100 None
     = (Inr (Some [\<lparr>fill_id = LadderMock 0, fill_status = ''open'', fill_side = ''buy'',
                    fill_amount = 20, fill_price = Some 99, fill_cost = None\<rparr>,
                   \<lparr>fill_id = LadderMock 1, fill_status = ''open'', fill_side = ''buy'',
                    fill_amount = 30, fill_price = Some 98, fill_cost = None\<rparr>,
                   \<lparr>fill_id = LadderMock 2, fill_status = ''open'', fill_side = ''buy'',
                    fill_amount = 50, fill_price = Some 96, fill_cost = None\<rparr>]), ?live)"
    using ladder_three_buy_rungs [OF price, of 100 ?live _ _ _ _ _ _ _ _ _ _ None] nowal
    by simp
  from s1 paper live show ?thesis by blast
qed



subsection \<open>Rate limiting\<close>

lemma execute_paper_trade_last_trade_time:
  "last_trade_time (snd (execute_paper_trade ex side symbol amount price book)) = last_trade_time ex"
  by (auto simp: execute_paper_trade_def split: sum.splits prod.splits option.splits)

lemma execute_order_paper_last_trade_time:
  "paper_wallet ex \<noteq> None \<Longrightarrow>
     last_trade_time (snd (execute_order ex now sg symbol amount book)) = last_trade_time ex"
  by (simp add: execute_order_def Let_def execute_paper_trade_last_trade_time split: option.splits)

lemma execute_order_rejected_early:
  "signal_falsy sg \<or> sig_side sg \<notin> {Some ''buy'', Some ''sell''}
     \<or> now - last_trade_time ex < min_trade_interval ex \<Longrightarrow>
   execute_order ex now sg symbol amount book = (Inr None, ex)"
  by (auto simp: execute_order_def Let_def split: option.splits)

text \<open>
  Claim C4 fails on the paper path. An executor with a paper wallet of 10000 USD and a
  minimum interval of 60 seconds fills a buy at time 1700000000 and keeps
  \<open>last_trade_time = 0\<close>: the paper branch returns the result of the paper trade before
  the assignment to \<open>last_trade_time\<close> is reached. A second call one second later is
  not rejected and changes the wallet again. Without a wallet (the live placeholder
  path) the same first call sets \<open>last_trade_time\<close> to the call time and the second call
  is rejected.
\<close>

theorem paper_fill_keeps_last_trade_time:
  "execute_order (init_executor (Some [(''USD'', 10000)]) 0 0 60) 1700000000
       \<lparr>sig_side = Some ''buy'', sig_price = Some 100\<rparr> ''BTC/USD'' 1 None
     = (Inr (Some \<lparr>fill_id = PaperId, fill_status = ''closed'', fill_side = ''buy'',
                   fill_amount = 1, fill_price = Some 100, fill_cost = Some 100\<rparr>),
        \<lparr>paper_wallet = Some [(''USD'', 9900), (''BTC'', 1)], slippage_pct = 0, fee_pct = 0,
         last_trade_time = 0, min_trade_interval = 60\<rparr>)
   \<and> (1700000001 :: real) - 1700000000 < 60
   \<and> execute_order
        \<lparr>paper_wallet = Some [(''USD'', 9900), (''BTC'', 1)], slippage_pct = 0, fee_pct = 0,
         last_trade_time = 0, min_trade_interval = 60\<rparr> 1700000001
       \<lparr>sig_side = Some ''buy'', sig_price = Some 100\<rparr> ''BTC/USD'' 1 None
     = (Inr (Some \<lparr>fill_id = PaperId, fill_status = ''closed'', fill_side = ''buy'',
                   fill_amount = 1, fill_price = Some 100, fill_cost = Some 100\<rparr>),
        \<lparr>paper_wallet = Some [(''USD'', 9800), (''BTC'', 2)], slippage_pct = 0, fee_pct = 0,
         last_trade_time = 0, min_trade_interval = 60\<rparr>)
   \<and> execute_order (init_executor None 0 0 60) 1700000000
       \<lparr>sig_side = Some ''buy'', sig_price = Some 100\<rparr> ''BTC/USD'' 1 None
     = (Inr (Some \<lparr>fill_id = LiveMock, fill_status = ''closed'', fill_side = ''buy'',
                   fill_amount = 1, fill_price = None, fill_cost = None\<rparr>),
        \<lparr>paper_wallet = None, slippage_pct = 0, fee_pct = 0,
         last_trade_time = 1700000000, min_trade_interval = 60\<rparr>)
   \<and> execute_order
        \<lparr>paper_wallet = None, slippage_pct = 0, fee_pct = 0,
         last_trade_time = 1700000000, min_trade_interval = 60\<rparr> 1700000001
       \<lparr>sig_side = Some ''buy'', sig_price = Some 100\<rparr> ''BTC/USD'' 1 None
     = (Inr None,
        \<lparr>paper_wallet = None, slippage_pct = 0, fee_pct = 0,
         last_trade_time = 1700000000, min_trade_interval = 60\<rparr>)"
  by (simp add: execute_order_def signal_falsy_def init_executor_def
      execute_paper_trade_def price_truthy_def split_symbol_def discover_price_def
      flat_slippage_def settle_def withdraw_def deposit_def get_balance_def)

subsection \<open>Malformed symbols\<close>

lemma str_split_length: "length (str_split sep s) = Suc (count_list s sep)"
  by (induction s) (auto split: list.splits)

lemma split_symbol_malformed:
  "count_list symbol CHR ''/'' \<noteq> 1 \<Longrightarrow> split_symbol symbol = Inl ValueError"
proof -
  assume a: "count_list symbol CHR ''/'' \<noteq> 1"
  have "length (str_split CHR ''/'' symbol) \<noteq> 2"
    using a by (simp add: str_split_length)
  then show ?thesis
    by (auto simp: split_symbol_def split: list.splits)
qed

lemma split_symbol_well_formed:
  "count_list symbol CHR ''/'' = 1 \<Longrightarrow> \<exists>base quote. split_symbol symbol = Inr (base, quote)"
proof -
  assume a: "count_list symbol CHR ''/'' = 1"
  have "length (str_split CHR ''/'' symbol) = 2"
    using a by (simp add: str_split_length)
  then show ?thesis
    by (auto simp: split_symbol_def split: list.splits)
qed

text \<open>
  Claim C8, as amended. The constructor takes no symbol and checks none. A symbol that
  does not hold exactly one \<open>/\<close> makes the paper trade raise \<^verbatim>\<open>ValueError\<close> at the call,
  once a price or a book is there, before any change of the wallet; the exception
  leaves \<open>execute_order\<close> when the signal is valid, the rate limit is passed and a paper
  wallet is set. A paper trade with neither price nor book returns \<open>None\<close> without
  looking at the symbol.
\<close>

theorem malformed_symbol_raises_at_call:
  assumes malformed: "count_list symbol CHR ''/'' \<noteq> 1"
  shows "split_symbol symbol = Inl ValueError
     \<and> (price_truthy price \<or> book \<noteq> None \<longrightarrow>
          execute_paper_trade ex side symbol amount price book = (Inl ValueError, ex))
     \<and> (\<not> price_truthy price \<and> book = None \<longrightarrow>
          execute_paper_trade ex side symbol amount price book = (Inr None, ex))
     \<and> (sig_side sg = Some side \<and> side \<in> {''buy'', ''sell''}
          \<and> min_trade_interval ex \<le> now - last_trade_time ex
          \<and> paper_wallet ex \<noteq> None \<and> (price_truthy (sig_price sg) \<or> book \<noteq> None) \<longrightarrow>
          execute_order ex now sg symbol amount book = (Inl ValueError, ex))"
proof -
  from malformed have s: "split_symbol symbol = Inl ValueError" by (rule split_symbol_malformed)
  have p: "\<And>side price. price_truthy price \<or> book \<noteq> None \<longrightarrow>
          execute_paper_trade ex side symbol amount price book = (Inl ValueError, ex)"
    using s by (auto simp: execute_paper_trade_def)
  have n: "\<not> price_truthy price \<and> book = None \<longrightarrow>
          execute_paper_trade ex side symbol amount price book = (Inr None, ex)"
    by (simp add: execute_paper_trade_def)
  have o: "sig_side sg = Some side \<and> side \<in> {''buy'', ''sell''}
          \<and> min_trade_interval ex \<le> now - last_trade_time ex
          \<and> paper_wallet ex \<noteq> None \<and> (price_truthy (sig_price sg) \<or> book \<noteq> None) \<longrightarrow>
          execute_order ex now sg symbol amount book = (Inl ValueError, ex)"
    using p [of "sig_price sg" side]
    by (auto simp: execute_order_def signal_falsy_def Let_def)
  from s p n o show ?thesis by blast
qed

text \<open>
  Claim C8 as stated fails: the construction of an executor succeeds whatever symbols
  are traded later, and the first order on the symbol \<open>BTCUSD\<close> raises \<^verbatim>\<open>ValueError\<close>
  out of \<open>execute_order\<close>.
\<close>

theorem malformed_symbol_counterexample:
  "init_executor (Some [(''USD'', 10000)]) 0 0 60
     = \<lparr>paper_wallet = Some [(''USD'', 10000)], slippage_pct = 0, fee_pct = 0,
        last_trade_time = 0, min_trade_interval = 60\<rparr>
   \<and> execute_order (init_executor (Some [(''USD'', 10000)]) 0 0 60) 1700000000
       \<lparr>sig_side = Some ''buy'', sig_price = Some 100\<rparr> ''BTCUSD'' 1 None
     = (Inl ValueError, init_executor (Some [(''USD'', 10000)]) 0 0 60)"
  by (simp add: execute_order_def signal_falsy_def init_executor_def
      execute_paper_trade_def price_truthy_def split_symbol_def)

theorem malformed_symbol_raises_at_call_witness:
  "count_list ''BTCUSD'' CHR ''/'' \<noteq> 1
   \<and> split_symbol ''BTCUSD'' = Inl ValueError
   \<and> execute_paper_trade (init_executor (Some [(''USD'', 10000)]) 0 0 60) ''buy'' ''BTCUSD'' 1
        (Some 100) None
      = (Inl ValueError, init_executor (Some [(''USD'', 10000)]) 0 0 60)
   \<and> execute_paper_trade (init_executor (Some [(''USD'', 10000)]) 0 0 60) ''buy'' ''BTCUSD'' 1
        None None
      = (Inr None, init_executor (Some [(''USD'', 10000)]) 0 0 60)
   \<and> execute_order (init_executor (Some [(''USD'', 10000)]) 0 0 60) 1700000000
        \<lparr>sig_side = Some ''buy'', sig_price = Some 100\<rparr> ''A/B/C'' 1 None
      = (Inl ValueError, init_executor (Some [(''USD'', 10000)]) 0 0 60)"
proof -
  let ?ex = "init_executor (Some [(''USD'', 10000)]) 0 0 60"
  let ?sg = "\<lparr>sig_side = Some ''buy'', sig_price = Some 100\<rparr>"
  have m1: "count_list ''BTCUSD'' CHR ''/'' \<noteq> 1" and m2: "count_list ''A/B/C'' CHR ''/'' \<noteq> 1"
    by simp_all
  have ex: "min_trade_interval ?ex \<le> 1700000000 - last_trade_time ?ex" "paper_wallet ?ex \<noteq> None"
    by (simp_all add: init_executor_def)
  note a = malformed_symbol_raises_at_call [OF m1, of "Some 100" None ?ex "''buy''" 1]
  note b = malformed_symbol_raises_at_call [OF m1, of None None ?ex "''buy''" 1]
  note c = malformed_symbol_raises_at_call [OF m2, of None None ?ex "''buy''" 1 ?sg 1700000000]
  from a have 1: "split_symbol ''BTCUSD'' = Inl ValueError" by blast
  from a [THEN conjunct2, THEN conjunct1]
  have 2: "execute_paper_trade ?ex ''buy'' ''BTCUSD'' 1 (Some 100) None = (Inl ValueError, ?ex)"
    by (simp add: price_truthy_def)
  from b [THEN conjunct2, THEN conjunct2, THEN conjunct1]
  have 3: "execute_paper_trade ?ex ''buy'' ''BTCUSD'' 1 None None = (Inr None, ?ex)"
    by (simp add: price_truthy_def)
  from c [THEN conjunct2, THEN conjunct2, THEN conjunct2] ex
  have 4: "execute_order ?ex 1700000000 ?sg ''A/B/C'' 1 None = (Inl ValueError, ?ex)"
    by (simp add: price_truthy_def)
  from m1 1 2 3 4 show ?thesis by blast
qed



subsection \<open>Sharing of the balances dict\<close>

text \<open>
  Claim C9, as amended. \<^verbatim>\<open>get_all_balances\<close> returns the wallet's own dict, not a copy:
  a value the caller stores through the returned reference is the balance the wallet
  reports afterwards, and a deposit or a successful withdraw made after the call shows
  through the reference returned before it.
\<close>

theorem all_balances_is_alias:
  "obj_get_balance (dict_setitem st (get_all_balances self) key v) self key = v
   \<and> (0 \<le> amount \<longrightarrow>
        dict_get (obj_deposit st self currency amount) (get_all_balances self) currency
          = Some (obj_get_balance st self currency + amount))
   \<and> (0 \<le> amount \<and> amount \<le> obj_get_balance st self currency \<longrightarrow>
        dict_get (snd (obj_withdraw st self currency amount)) (get_all_balances self) currency
          = Some (obj_get_balance st self currency - amount))"
  by (simp add: obj_get_balance_def dict_setitem_def get_all_balances_def dict_get_def
      obj_deposit_def obj_withdraw_def deposit_def withdraw_def get_balance_update update_conv')

theorem all_balances_is_alias_witness:
  "obj_get_balance (dict_setitem ((\<lambda>r. [])(0 := [(''USD'', 100)]))
        (get_all_balances \<lparr>balances_ref = 0\<rparr>) ''USD'' 0) \<lparr>balances_ref = 0\<rparr> ''USD'' = 0
   \<and> (0 :: real) \<le> 50
   \<and> dict_get (obj_deposit ((\<lambda>r. [])(0 := [(''USD'', 100)])) \<lparr>balances_ref = 0\<rparr> ''USD'' 50)
        (get_all_balances \<lparr>balances_ref = 0\<rparr>) ''USD'' = Some 150
   \<and> 50 \<le> obj_get_balance ((\<lambda>r. [])(0 := [(''USD'', 100)])) \<lparr>balances_ref = 0\<rparr> ''USD''
   \<and> dict_get (snd (obj_withdraw ((\<lambda>r. [])(0 := [(''USD'', 100)])) \<lparr>balances_ref = 0\<rparr> ''USD'' 50))
        (get_all_balances \<lparr>balances_ref = 0\<rparr>) ''USD'' = Some 50"
proof -
  let ?st = "(\<lambda>r. [])(0 := [(''USD'', 100)]) :: store"
  let ?w = "\<lparr>balances_ref = 0\<rparr>"
  have b: "obj_get_balance ?st ?w ''USD'' = 100"
    by (simp add: obj_get_balance_def get_balance_def)
  note t = all_balances_is_alias [of ?st ?w "''USD''" 0 50 "''USD''"]
  from t [THEN conjunct1]
  have 1: "obj_get_balance (dict_setitem ?st (get_all_balances ?w) ''USD'' 0) ?w ''USD'' = 0" .
  from t [THEN conjunct2, THEN conjunct1]
  have 2: "dict_get (obj_deposit ?st ?w ''USD'' 50) (get_all_balances ?w) ''USD'' = Some 150"
    unfolding b by simp
  from t [THEN conjunct2, THEN conjunct2]
  have 3: "dict_get (snd (obj_withdraw ?st ?w ''USD'' 50)) (get_all_balances ?w) ''USD'' = Some 50"
    unfolding b by simp
  from 1 2 3 b show ?thesis by simp
qed

text \<open>
  Claim C9 as stated fails. A wallet holds 100 USD. The caller takes \<^verbatim>\<open>get_all_balances()\<close>
  and stores 0 under USD in what it got: the wallet's balance is now 0, not 100. And a
  mapping taken before a deposit of 50 reads 150 after it, not 100.
\<close>

theorem all_balances_snapshot_counterexample:
  "obj_get_balance ((\<lambda>r. [])(0 := [(''USD'', 100)])) \<lparr>balances_ref = 0\<rparr> ''USD'' = 100
   \<and> obj_get_balance (dict_setitem ((\<lambda>r. [])(0 := [(''USD'', 100)]))
        (get_all_balances \<lparr>balances_ref = 0\<rparr>) ''USD'' 0) \<lparr>balances_ref = 0\<rparr> ''USD'' = 0
   \<and> dict_get ((\<lambda>r. [])(0 := [(''USD'', 100)])) (get_all_balances \<lparr>balances_ref = 0\<rparr>) ''USD''
       = Some 100
   \<and> dict_get (obj_deposit ((\<lambda>r. [])(0 := [(''USD'', 100)])) \<lparr>balances_ref = 0\<rparr> ''USD'' 50)
        (get_all_balances \<lparr>balances_ref = 0\<rparr>) ''USD'' = Some 150"
  by (simp add: obj_get_balance_def dict_setitem_def get_all_balances_def dict_get_def
      obj_deposit_def deposit_def get_balance_def)


end
